theory Spec2Isabelle
  imports Main
begin

section \<open>Data model of the nolol converter (pkg/nolol/converter.go)\<close>

text \<open>
  \<^verbatim>\<open>ast.Position\<close> as the source writes it in the literal
  \<^verbatim>\<open>ast.Position{Line: 1, Coloumn: 1}\<close>.
\<close>

record Position =
  Line :: int
  Coloumn :: int

text \<open>\<^verbatim>\<open>parser.Error\<close>: a message and a source span.\<close>

record parser_Error =
  Message :: string
  StartPosition :: Position
  EndPosition :: Position

text \<open>
  \<^verbatim>\<open>nast.StatementLine\<close>, with the fields the converter reads and writes. The
  statements are of an arbitrary type \<open>'s\<close>: the merge pass only copies and appends them.
\<close>

record 's StatementLine =
  Statements :: "'s list"
  Label :: string
  LinePosition :: Position
  HasEOL :: bool
  HasBOL :: bool

text \<open>
  The fields of \<^verbatim>\<open>Converter\<close> that the functions below read or write. The
  other fields (the label table, the definitions, the optimizers, the macro stack) are
  the extension \<open>'z\<close> of the record scheme \<open>'z Converter_scheme\<close>.
\<close>

record Converter =
  usesTimeTracking :: bool
  UseSpaces :: bool
  loopcounter :: int
  loopLevel :: "int list"

datatype PrinterMode = PrintermodeSpaceless | PrintermodeCompact

text \<open>
  The collaborators that live outside the converter and are taken as parameters:
  \<^item> \<open>Print\<close> is \<^verbatim>\<open>parser.Printer.Print\<close> with the extension function of
    \<^verbatim>\<open>getLengthOfLine\<close> installed, applied to an \<^verbatim>\<open>ast.Line\<close> that carries
    the given statements (the accumulator line is built with no other field set);
  \<^item> \<open>nodeStart\<close> and \<open>nodeEnd\<close> are the methods \<^verbatim>\<open>Start()\<close> and
    \<^verbatim>\<open>End()\<close> of a statement line.
\<close>

record 's Env =
  Print :: "PrinterMode \<Rightarrow> 's list \<Rightarrow> string"
  nodeStart :: "'s StatementLine \<Rightarrow> Position"
  nodeEnd :: "'s StatementLine \<Rightarrow> Position"

section \<open>The per-line budget and the length estimator\<close>

definition maxLineLength :: "'z Converter_scheme \<Rightarrow> nat" where
  "maxLineLength c = (if \<not> usesTimeTracking c then 70 else 70 - 4)"

text \<open>
  \<^verbatim>\<open>getLengthOfLine\<close>: print in spaceless mode, or in compact mode when
  \<^verbatim>\<open>UseSpaces\<close> is set, and count the characters, less one for a trailing newline.
\<close>

definition printerMode :: "'z Converter_scheme \<Rightarrow> PrinterMode" where
  "printerMode c = (if UseSpaces c then PrintermodeCompact else PrintermodeSpaceless)"

definition HasSuffix_newline :: "string \<Rightarrow> bool" where
  "HasSuffix_newline generated = (generated \<noteq> [] \<and> last generated = CHR 0x0A)"

definition getLengthOfLine :: "'s Env \<Rightarrow> 'z Converter_scheme \<Rightarrow> 's list \<Rightarrow> nat" where
  "getLengthOfLine env c stmts =
     (let generated = Print env (printerMode c) stmts;
          linelen = length generated
      in if HasSuffix_newline generated then linelen - 1 else linelen)"

section \<open>The line packer: mergeStatementElements\<close>

definition tooLongError :: "'s Env \<Rightarrow> 's StatementLine \<Rightarrow> parser_Error" where
  "tooLongError env current =
     \<lparr> Message = ''The line is too long (>70 characters) to be converted to yolol, even after optimization.'',
       StartPosition = nodeStart env current,
       EndPosition = nodeEnd env current \<rparr>"

text \<open>
  The inner loop \<^verbatim>\<open>for i+1 < len(lines)\<close>. \<open>rest\<close> is \<^verbatim>\<open>lines[i+1:]\<close>, so the
  loop condition is \<open>rest \<noteq> []\<close>, \<^verbatim>\<open>nextline\<close> is its head and \<^verbatim>\<open>i++\<close> drops
  that head. The result is the error raised at the head of an iteration (with the
  accumulator as it is then), or the accumulator and the lines left when the loop is
  left by \<^verbatim>\<open>break\<close> or by its condition.
\<close>

fun absorb ::
  "'s Env \<Rightarrow> 'z Converter_scheme \<Rightarrow> 's StatementLine \<Rightarrow> 's StatementLine list \<Rightarrow>
   ('s StatementLine \<times> parser_Error) + ('s StatementLine \<times> 's StatementLine list)" where
  "absorb env c current [] = Inr (current, [])"
| "absorb env c current (nextline # rest) =
     (if getLengthOfLine env c (Statements current) > maxLineLength c
      then Inl (current, tooLongError env current)
      else if Label nextline = [] \<and> \<not> HasBOL nextline then
        (let prev = Statements current;
             appended = current\<lparr>Statements := prev @ Statements nextline\<rparr>
         in if getLengthOfLine env c (Statements appended) > maxLineLength c
            then Inr (current\<lparr>Statements := prev\<rparr>, nextline # rest)
            else if HasEOL nextline then Inr (appended, rest)
            else absorb env c appended rest)
      else Inr (current, nextline # rest))"

text \<open>The accumulator that the outer loop starts from \<^verbatim>\<open>lines[i]\<close>.\<close>

definition newCurrent :: "'s StatementLine \<Rightarrow> 's StatementLine" where
  "newCurrent l =
     \<lparr> Statements = [] @ Statements l,
       Label = Label l,
       LinePosition = LinePosition l,
       HasEOL = HasEOL l,
       HasBOL = False \<rparr>"

lemma absorb_rest_length:
  "absorb env c current rest = Inr (current', rest') \<Longrightarrow> length rest' \<le> length rest"
proof (induction rest arbitrary: current)
  case Nil
  then show ?case by simp
next
  case (Cons nextline rest)
  then show ?case
    by (auto simp: Let_def split: if_splits dest: le_SucI)
qed

text \<open>
  The outer loop \<^verbatim>\<open>for i < len(lines)\<close>, on \<^verbatim>\<open>lines[i:]\<close>. It returns both
  results of the Go function: the lines built so far and the error, if any.
\<close>

function mergeLoop ::
  "'s Env \<Rightarrow> 'z Converter_scheme \<Rightarrow> 's StatementLine list \<Rightarrow> 's StatementLine list \<Rightarrow>
   's StatementLine list \<times> parser_Error option" where
  "mergeLoop env c newElements [] = (newElements, None)"
| "mergeLoop env c newElements (l # rest) =
     (let current = newCurrent l in
      if HasEOL current then mergeLoop env c (newElements @ [current]) rest
      else (case absorb env c current rest of
              Inl (current', err) \<Rightarrow> (newElements @ [current'], Some err)
            | Inr (current', rest') \<Rightarrow> mergeLoop env c (newElements @ [current']) rest'))"
  by pat_completeness auto
termination
  by (relation "measure (\<lambda>(env, c, newElements, lines). length lines)")
     (auto dest: absorb_rest_length simp: less_Suc_eq_le)

definition mergeStatementElements ::
  "'s Env \<Rightarrow> 'z Converter_scheme \<Rightarrow> 's StatementLine list \<Rightarrow>
   's StatementLine list \<times> parser_Error option" where
  "mergeStatementElements env c lines = mergeLoop env c [] lines"

section \<open>The pipeline: Convert\<close>

text \<open>
  A program element is a statement line or something else (\<^verbatim>\<open>OtherElement\<close> carries
  the Go type name that \<^verbatim>\<open>%T\<close> prints). \<^verbatim>\<open>ast.Line\<close> and
  \<^verbatim>\<open>ast.Program\<close> are the emitted program.
\<close>

datatype 's Element = StatementLineElement "'s StatementLine" | OtherElement string

record 's ast_Line =
  ast_Position :: Position
  ast_Statements :: "'s list"

record 's ast_Program =
  Lines :: "'s ast_Line list"

text \<open>
  A Go \<^verbatim>\<open>error\<close> is a \<^verbatim>\<open>parser.Error\<close> or an error of a collaborator. A Go
  call returns or panics.
\<close>

datatype 'e GoError = ParserError parser_Error | OtherError 'e

datatype 'a GoResult = Returns 'a | Panics

text \<open>
  \<^verbatim>\<open>mergeNololElements\<close>: the type wrapper. The first loop fails on the first
  element that is not a statement line; an error of the merge drops the lines.
\<close>

fun toStatementLines :: "'s Element list \<Rightarrow> parser_Error + 's StatementLine list" where
  "toStatementLines [] = Inr []"
| "toStatementLines (StatementLineElement line # lines) =
     (case toStatementLines lines of Inl err \<Rightarrow> Inl err | Inr inp \<Rightarrow> Inr (line # inp))"
| "toStatementLines (OtherElement T # lines) =
     Inl \<lparr> Message = ''Err: Found unconverted nolol-element: '' @ T,
           StartPosition = \<lparr>Line = 0, Coloumn = 0\<rparr>,
           EndPosition = \<lparr>Line = 0, Coloumn = 0\<rparr> \<rparr>"

definition mergeNololElements ::
  "'s Env \<Rightarrow> 'z Converter_scheme \<Rightarrow> 's Element list \<Rightarrow> 'e GoError + 's Element list" where
  "mergeNololElements env c lines =
     (case toStatementLines lines of
        Inl err \<Rightarrow> Inl (ParserError err)
      | Inr inp \<Rightarrow>
          (case mergeStatementElements env c inp of
             (interm, Some err) \<Rightarrow> Inl (ParserError err)
           | (interm, None) \<Rightarrow> Inr (map StatementLineElement interm)))"

text \<open>
  The passes of \<^verbatim>\<open>Convert\<close> that are defined in other files, as parameters. Each
  works on the converter and the program; the fallible ones return an error or the new
  state.
\<close>

type_synonym ('z, 's) St = "'z Converter_scheme \<times> 's Element list"

record ('z, 's, 'e) Passes =
  usesTimeTrackingOf :: "'s Element list \<Rightarrow> bool"
  OptimizeVarName :: "'z Converter_scheme \<Rightarrow> 'z Converter_scheme"
  convertNodes :: "('z, 's) St \<Rightarrow> 'e GoError + ('z, 's) St"
  addFinalGoto :: "('z, 's) St \<Rightarrow> 'e GoError + ('z, 's) St"
  resolveGotoChains :: "('z, 's) St \<Rightarrow> 'e GoError + ('z, 's) St"
  removeUnusedLabels :: "('z, 's) St \<Rightarrow> 'e GoError + ('z, 's) St"
  removeDuplicateGotos :: "('z, 's) St \<Rightarrow> 'e GoError + ('z, 's) St"
  findJumpLabels :: "('z, 's) St \<Rightarrow> 'e GoError + ('z, 's) St"
  replaceGotoLabels :: "('z, 's) St \<Rightarrow> 'e GoError + ('z, 's) St"
  convertLineFuncCalls :: "('z, 's) St \<Rightarrow> 'e GoError + ('z, 's) St"
  sexpOptimize :: "('z, 's) St \<Rightarrow> 'e GoError + ('z, 's) St"
  insertLineCounter :: "('z, 's) St \<Rightarrow> ('z, 's) St"
  removeFinalGotoIfNeeded :: "'z Converter_scheme \<Rightarrow> 's ast_Program \<Rightarrow> 's ast_Program"

text \<open>\<^verbatim>\<open>if err != nil { return nil, err }\<close> between two passes.\<close>

definition andThen :: "'x + 'a \<Rightarrow> ('a \<Rightarrow> 'x + 'b) \<Rightarrow> 'x + 'b" where
  "andThen r k = (case r of Inl err \<Rightarrow> Inl err | Inr st \<Rightarrow> k st)"

definition mergeStep ::
  "'s Env \<Rightarrow> ('z, 's) St \<Rightarrow> 'e GoError + ('z, 's) St" where
  "mergeStep env st =
     (case mergeNololElements env (fst st) (snd st) of
        Inl err \<Rightarrow> Inl err
      | Inr merged \<Rightarrow> Inr (fst st, merged))"

text \<open>
  Lines 95 to 160 of \<^verbatim>\<open>Convert\<close>: every pass that can fail, in the order of the
  source; each failure returns \<^verbatim>\<open>nil, err\<close>.
\<close>

definition lowerAndResolve ::
  "'s Env \<Rightarrow> ('z, 's, 'e) Passes \<Rightarrow> 'z Converter_scheme \<Rightarrow> 's Element list \<Rightarrow>
   'e GoError + ('z, 's) St" where
  "lowerAndResolve env P c prog =
     (let c1 = c\<lparr>usesTimeTracking := usesTimeTrackingOf P prog\<rparr>;
          c2 = OptimizeVarName P c1
      in andThen (convertNodes P (c2, prog)) (\<lambda>st.
         andThen (addFinalGoto P st) (\<lambda>st.
         andThen (resolveGotoChains P st) (\<lambda>st.
         andThen (removeUnusedLabels P st) (\<lambda>st.
         andThen (mergeStep env st) (\<lambda>st.
         andThen (removeDuplicateGotos P st) (\<lambda>st.
         andThen (findJumpLabels P st) (\<lambda>st.
         andThen (replaceGotoLabels P st) (\<lambda>st.
         andThen (convertLineFuncCalls P st) (\<lambda>st.
         andThen (sexpOptimize P st) (\<lambda>st.
         Inr (if usesTimeTracking (fst st) then insertLineCounter P st else st))))))))))))"

text \<open>
  Lines 163 to 173: the output lines. The type assertion
  \<^verbatim>\<open>element.(*nast.StatementLine)\<close> panics on any other element.
\<close>

fun toLines :: "'s Element list \<Rightarrow> 's ast_Line list GoResult" where
  "toLines [] = Returns []"
| "toLines (StatementLineElement line # elements) =
     (case toLines elements of
        Panics \<Rightarrow> Panics
      | Returns ls \<Rightarrow>
          Returns (\<lparr>ast_Position = LinePosition line, ast_Statements = Statements line\<rparr> # ls))"
| "toLines (OtherElement T # elements) = Panics"

definition tooLargeError :: parser_Error where
  "tooLargeError =
     \<lparr> Message = ''Program is too large to be compiled into 20 lines of yolol.'',
       StartPosition = \<lparr>Line = 1, Coloumn = 1\<rparr>,
       EndPosition = \<lparr>Line = 30, Coloumn = 70\<rparr> \<rparr>"

text \<open>
  The program as it stands at line 176, before the line count is checked: an error of
  a pass, or the assembled output.
\<close>

definition compiled ::
  "'s Env \<Rightarrow> ('z, 's, 'e) Passes \<Rightarrow> 'z Converter_scheme \<Rightarrow> 's Element list \<Rightarrow>
   ('e GoError + 's ast_Program) GoResult" where
  "compiled env P c prog =
     (case lowerAndResolve env P c prog of
        Inl err \<Rightarrow> Returns (Inl err)
      | Inr st \<Rightarrow>
          (case toLines (snd st) of
             Panics \<Rightarrow> Panics
           | Returns ls \<Rightarrow> Returns (Inr (removeFinalGotoIfNeeded P (fst st) \<lparr>Lines = ls\<rparr>))))"

text \<open>
  \<^verbatim>\<open>Convert\<close>: the two results of the Go function, the program (\<open>None\<close> is
  \<^verbatim>\<open>nil\<close>) and the error.
\<close>

definition Convert ::
  "'s Env \<Rightarrow> ('z, 's, 'e) Passes \<Rightarrow> 'z Converter_scheme \<Rightarrow> 's Element list \<Rightarrow>
   ('s ast_Program option \<times> 'e GoError option) GoResult" where
  "Convert env P c prog =
     (case compiled env P c prog of
        Panics \<Rightarrow> Panics
      | Returns (Inl err) \<Rightarrow> Returns (None, Some err)
      | Returns (Inr out) \<Rightarrow>
          (if length (Lines out) > 20
           then Returns (Some out, Some (ParserError tooLargeError))
           else Returns (Some out, None)))"

section \<open>The traversal engine: Accept and patchExtLines\<close>

text \<open>
  A \<^verbatim>\<open>parser.Node\<close> handed back in a replacement is an \<^verbatim>\<open>ExtLine\<close> or a node
  of another kind. The \<^verbatim>\<open>error\<close> a visit returns is \<^verbatim>\<open>nil\<close> (\<open>None\<close>), a
  \<^verbatim>\<open>parser.NodeReplacement\<close> or an ordinary error. The visit type is one of the
  constants of the parser package or the index of the child that is visited next.
\<close>

datatype ('l, 'o) Node = ExtLineNode 'l | OtherNode 'o

datatype ('n, 'e) VisitError = NodeReplacement "'n list" | PlainError 'e

datatype VisitType = PreVisit | PostVisit | SingleVisit | ChildIndex int

text \<open>
  The loop of \<^verbatim>\<open>patchExtLines\<close> over the replacement: a node that is not an
  \<^verbatim>\<open>ExtLine\<close> panics.
\<close>

fun appendExtLines :: "'l list \<Rightarrow> ('l, 'o) Node list \<Rightarrow> 'l list GoResult" where
  "appendExtLines newv [] = Returns newv"
| "appendExtLines newv (ExtLineNode line # repl) = appendExtLines (newv @ [line]) repl"
| "appendExtLines newv (OtherNode other # repl) = Panics"

text \<open>
  \<^verbatim>\<open>patchExtLines\<close>. A position outside \<^verbatim>\<open>0 <= position < len(old)\<close> ends in
  a panic of the Go runtime whatever the replacement is: \<^verbatim>\<open>old[:position]\<close> or
  \<^verbatim>\<open>old[position+1:]\<close> is out of range when the loop has not panicked before.
\<close>

definition patchExtLines :: "'l list \<Rightarrow> int \<Rightarrow> ('l, 'o) Node list \<Rightarrow> 'l list GoResult" where
  "patchExtLines old position repl =
     (if position < 0 \<or> int (length old) \<le> position then Panics
      else (case appendExtLines (take (nat position) old) repl of
              Panics \<Rightarrow> Panics
            | Returns newv \<Rightarrow> Returns (newv @ drop (nat position + 1) old)))"

text \<open>
  The visitor, as the engine sees it: \<open>Visit\<close> is \<^verbatim>\<open>v.Visit(p, visitType)\<close> on the
  program with its current lines, \<open>AcceptLine\<close> is \<^verbatim>\<open>p.Lines[i].Accept(v)\<close>, a
  dynamic call on the \<^verbatim>\<open>ExtLine\<close> interface. Both thread the visitor's state
  \<open>'st\<close> and change the program's lines only through the replacement they return.
\<close>

record ('st, 'l, 'o, 'e) Visitor =
  Visit :: "'st \<Rightarrow> 'l list \<Rightarrow> VisitType \<Rightarrow> 'st \<times> (('l, 'o) Node, 'e) VisitError option"
  AcceptLine :: "'st \<Rightarrow> 'l \<Rightarrow> 'st \<times> (('l, 'o) Node, 'e) VisitError option"

lemma appendExtLines_length:
  "appendExtLines newv repl = Returns res \<Longrightarrow> length res = length newv + length repl"
proof (induction newv repl rule: appendExtLines.induct)
  case (1 newv)
  then show ?case by simp
next
  case (2 newv line repl)
  then show ?case by simp
next
  case (3 newv other repl)
  then show ?case by simp
qed

lemma patchExtLines_length:
  assumes "patchExtLines old position repl = Returns newv"
  shows "int (length newv) = int (length old) + int (length repl) - 1"
proof -
  from assms have range: "0 \<le> position" "position < int (length old)"
    by (auto simp: patchExtLines_def split: if_splits)
  from assms obtain mid where
    mid: "appendExtLines (take (nat position) old) repl = Returns mid"
    and newv: "newv = mid @ drop (nat position + 1) old"
    by (auto simp: patchExtLines_def split: if_splits GoResult.splits)
  from appendExtLines_length [OF mid] range
  have "length mid = nat position + length repl" by simp
  with newv range show ?thesis by simp
qed

text \<open>
  The loop \<^verbatim>\<open>for i := 0; i < len(p.Lines); i++\<close> of \<^verbatim>\<open>ExtProgramm.Accept\<close>, from
  index \<open>i\<close>: the state, the lines and the error it leaves the function with, or
  \<open>None\<close> when the loop ends.
\<close>

function acceptLines ::
  "('st, 'l, 'o, 'e) Visitor \<Rightarrow> 'st \<Rightarrow> 'l list \<Rightarrow> int \<Rightarrow>
   ('st \<times> 'l list \<times> (('l, 'o) Node, 'e) VisitError option) GoResult" where
  "acceptLines v st lines i =
     (if i < int (length lines) then
        (case Visit v st lines (ChildIndex i) of
           (st1, Some err) \<Rightarrow> Returns (st1, lines, Some err)
         | (st1, None) \<Rightarrow>
             (if i < 0 then Panics
              else (case AcceptLine v st1 (lines ! nat i) of
                      (st2, Some (NodeReplacement repl)) \<Rightarrow>
                        (case patchExtLines lines i repl of
                           Panics \<Rightarrow> Panics
                         | Returns lines' \<Rightarrow>
                             acceptLines v st2 lines' (i + (int (length repl) - 1) + 1))
                    | (st2, Some (PlainError e)) \<Rightarrow> Returns (st2, lines, Some (PlainError e))
                    | (st2, None) \<Rightarrow> acceptLines v st2 lines (i + 1))))
      else Returns (st, lines, None))"
  by pat_completeness auto
termination
  by (relation "measure (\<lambda>(v, st, lines, i). nat (int (length lines) - i))")
     (auto dest!: patchExtLines_length)

declare acceptLines.simps [simp del]

definition ExtProgramm_Accept ::
  "('st, 'l, 'o, 'e) Visitor \<Rightarrow> 'st \<Rightarrow> 'l list \<Rightarrow>
   ('st \<times> 'l list \<times> (('l, 'o) Node, 'e) VisitError option) GoResult" where
  "ExtProgramm_Accept v st lines =
     (case Visit v st lines PreVisit of
        (st1, Some err) \<Rightarrow> Returns (st1, lines, Some err)
      | (st1, None) \<Rightarrow>
          (case acceptLines v st1 lines 0 of
             Panics \<Rightarrow> Panics
           | Returns (st2, lines2, Some err) \<Rightarrow> Returns (st2, lines2, Some err)
           | Returns (st2, lines2, None) \<Rightarrow>
               (case Visit v st2 lines2 PostVisit of (st3, r) \<Rightarrow> Returns (st3, lines2, r))))"

text \<open>
  The traversal of the children as the specification words it, to compare the loop
  with: each child of the list is visited in turn, once; \<open>before\<close> holds the children
  already done with the replacements that took their places, \<open>after\<close> the children
  still to visit. A replacement goes to the end of \<open>before\<close> and is not visited.
\<close>

fun visitSiblings ::
  "('st, 'l, 'o, 'e) Visitor \<Rightarrow> 'st \<Rightarrow> 'l list \<Rightarrow> 'l list \<Rightarrow>
   ('st \<times> 'l list \<times> (('l, 'o) Node, 'e) VisitError option) GoResult" where
  "visitSiblings v st before [] = Returns (st, before, None)"
| "visitSiblings v st before (line # after) =
     (case Visit v st (before @ line # after) (ChildIndex (int (length before))) of
        (st1, Some err) \<Rightarrow> Returns (st1, before @ line # after, Some err)
      | (st1, None) \<Rightarrow>
          (case AcceptLine v st1 line of
             (st2, Some (NodeReplacement repl)) \<Rightarrow>
               (case appendExtLines before repl of
                  Panics \<Rightarrow> Panics
                | Returns before' \<Rightarrow> visitSiblings v st2 before' after)
           | (st2, Some (PlainError e)) \<Rightarrow> Returns (st2, before @ line # after, Some (PlainError e))
           | (st2, None) \<Rightarrow> visitSiblings v st2 (before @ [line]) after))"

text \<open>
  A visitor that keeps a log of the lines it is asked to accept, in order, and replaces
  a line \<open>l\<close> by the lines \<open>f l\<close> when \<open>f l\<close> is not \<open>None\<close>; and the lines that
  stand for \<open>l\<close> afterwards.
\<close>

definition recorder :: "('l \<Rightarrow> 'l list option) \<Rightarrow> ('l list, 'l, 'o, 'e) Visitor" where
  "recorder f =
     \<lparr> Visit = (\<lambda>log lines vt. (log, None)),
       AcceptLine = (\<lambda>log l. (log @ [l],
          (case f l of None \<Rightarrow> None
           | Some new \<Rightarrow> Some (NodeReplacement (map ExtLineNode new))))) \<rparr>"

definition replaced :: "('l \<Rightarrow> 'l list option) \<Rightarrow> 'l \<Rightarrow> 'l list" where
  "replaced f l = (case f l of None \<Rightarrow> [l] | Some new \<Rightarrow> new)"

section \<open>The loop stack of convertNodes\<close>

text \<open>
  The nodes that matter to the loop stack: a while loop with its children (its
  condition and the elements of its block), \<^verbatim>\<open>break\<close>, \<^verbatim>\<open>continue\<close>, and any
  other node with its children.
\<close>

datatype 'a nast_Node =
    WhileLoop "'a nast_Node list"
  | BreakStatement
  | ContinueStatement
  | OtherKind 'a "'a nast_Node list"

text \<open>
  What a conversion hands back: \<^verbatim>\<open>nil\<close>, a node replacement, an error, or a panic.
  A replacement is a list of lowered nodes, of which only the jumps to the head and to
  the end of a loop are told apart.
\<close>

datatype LoopLabel = LoopHead int | LoopEnd int

datatype Lowered = JumpTo LoopLabel | OtherLowered

datatype VisitResult = NoError | Replaced "Lowered list" | Failed parser_Error | Panicked






text \<open>
  What is seen at a call of the callback: the node and the visit type; the number of
  while loops the node lies in (at the post-visit of a loop this counts the loop
  itself); the stack as the pre-visit of the innermost of these loops left it (the
  empty list outside any loop); the stack as the callback finds it and as it leaves
  it; and the result.
\<close>

record 'a Obs =
  obsNode :: "'a nast_Node"
  obsVisit :: VisitType
  obsDepth :: nat
  obsEnclosing :: "int list"
  obsStack :: "int list"
  obsAfter :: "int list"
  obsResult :: VisitResult

definition goesOn :: "VisitResult \<Rightarrow> bool" where
  "goesOn r = (case r of NoError \<Rightarrow> True | Replaced repl \<Rightarrow> True | _ \<Rightarrow> False)"


text \<open>
  The ids pushed in a traversal, in the order of the pushes: the last element of the
  stack that the pre-visit of each while loop leaves.
\<close>

definition isWhileLoop :: "'a nast_Node \<Rightarrow> bool" where
  "isWhileLoop n = (case n of WhileLoop children \<Rightarrow> True | _ \<Rightarrow> False)"

definition pushedIds :: "'a Obs list \<Rightarrow> int list" where
  "pushedIds obs =
     map (\<lambda>ob. last (obsAfter ob))
       (filter (\<lambda>ob. isWhileLoop (obsNode ob) \<and> obsVisit ob = PreVisit) obs)"






section \<open>The length estimator on a printed line\<close>











section \<open>Concrete inputs\<close>

text \<open>
  A printer that writes the statements (given as their text) one after the other, a
  fresh converter, passes that leave the program as it is, and a line that must end
  where it ends.
\<close>

definition textEnv :: "string Env" where
  "textEnv =
     \<lparr> Print = (\<lambda>mode stmts. concat stmts),
       nodeStart = LinePosition,
       nodeEnd = LinePosition \<rparr>"

definition conv0 :: Converter where
  "conv0 = \<lparr> usesTimeTracking = False, UseSpaces = False, loopcounter = 0, loopLevel = [] \<rparr>"

definition idPasses :: "(unit, string, string) Passes" where
  "idPasses =
     \<lparr> usesTimeTrackingOf = (\<lambda>prog. False),
       OptimizeVarName = (\<lambda>c. c),
       convertNodes = Inr, addFinalGoto = Inr, resolveGotoChains = Inr,
       removeUnusedLabels = Inr, removeDuplicateGotos = Inr, findJumpLabels = Inr,
       replaceGotoLabels = Inr, convertLineFuncCalls = Inr, sexpOptimize = Inr,
       insertLineCounter = (\<lambda>st. st),
       removeFinalGotoIfNeeded = (\<lambda>c out. out) \<rparr>"

definition eolLine :: "string \<Rightarrow> string StatementLine" where
  "eolLine s =
     \<lparr> Statements = [s], Label = [], LinePosition = \<lparr>Line = 1, Coloumn = 1\<rparr>,
       HasEOL = True, HasBOL = False \<rparr>"

definition plainLine :: "string \<Rightarrow> string list \<Rightarrow> string StatementLine" where
  "plainLine lbl stmts =
     \<lparr> Statements = stmts, Label = lbl, LinePosition = \<lparr>Line = 1, Coloumn = 1\<rparr>,
       HasEOL = False, HasBOL = False \<rparr>"

text \<open>A statement of 71 characters: one more than the budget of 70.\<close>

definition longStmt :: string where
  "longStmt = replicate 71 (CHR ''a'')"

text \<open>
  A visitor that hands back, for every line, a replacement holding one node that is
  not a line.
\<close>

definition badVisitor :: "(unit, string, unit, unit) Visitor" where
  "badVisitor =
     \<lparr> Visit = (\<lambda>st lines vt. (st, None)),
       AcceptLine = (\<lambda>st l. (st, Some (NodeReplacement [OtherNode ()]))) \<rparr>"







section \<open>What the merge pass is measured against\<close>


text \<open>
  The lines that one physical line is made of: the line the accumulator starts from and
  the lines it absorbs. No absorbed line has a label or the must-start marker, only the
  last line of a group may carry the must-end marker, and a group of more than one line
  is within the budget.
\<close>

definition joinGroup :: "'s StatementLine list \<Rightarrow> 's StatementLine" where
  "joinGroup g = (newCurrent (hd g))\<lparr>Statements := concat (map Statements g)\<rparr>"

definition validGroup :: "'s Env \<Rightarrow> 'z Converter_scheme \<Rightarrow> 's StatementLine list \<Rightarrow> bool" where
  "validGroup env c g =
     (g \<noteq> [] \<and>
      (\<forall>n \<in> set (tl g). Label n = [] \<and> \<not> HasBOL n) \<and>
      (\<forall>n \<in> set (butlast g). \<not> HasEOL n) \<and>
      (1 < length g \<longrightarrow>
         getLengthOfLine env c (concat (map Statements g)) \<le> maxLineLength c))"










section \<open>Properties of Convert\<close>

lemma mergeLoop_all_EOL:
  "\<forall>l \<in> set ls. HasEOL l \<Longrightarrow> mergeLoop env c acc ls = (acc @ map newCurrent ls, None)"
  by (induction ls arbitrary: acc) (auto simp: Let_def newCurrent_def)

lemma toStatementLines_lines: "toStatementLines (map StatementLineElement ls) = Inr ls"
  by (induction ls) auto

lemma toLines_lines:
  "toLines (map StatementLineElement ls) =
     Returns (map (\<lambda>line. \<lparr>ast_Position = LinePosition line, ast_Statements = Statements line\<rparr>) ls)"
  by (induction ls) auto

lemma compiled_all_EOL:
  "\<forall>l \<in> set ls. HasEOL l \<Longrightarrow>
   compiled textEnv idPasses conv0 (map StatementLineElement ls) =
     Returns (Inr \<lparr>Lines = map (\<lambda>line. \<lparr>ast_Position = LinePosition line,
                                           ast_Statements = Statements line\<rparr>)
                               (map newCurrent ls)\<rparr>)"
  by (simp add: compiled_def lowerAndResolve_def andThen_def mergeStep_def
      mergeNololElements_def mergeStatementElements_def idPasses_def conv0_def
      toStatementLines_lines mergeLoop_all_EOL toLines_lines
      del: map_map)

lemma compiled_21_lines:
  "compiled textEnv idPasses conv0 (map StatementLineElement (replicate 21 (eolLine ''a=1''))) =
     Returns (Inr \<lparr>Lines = replicate 21 \<lparr>ast_Position = \<lparr>Line = 1, Coloumn = 1\<rparr>,
                                           ast_Statements = [''a=1'']\<rparr>\<rparr>)"
  using compiled_all_EOL [of "replicate 21 (eolLine ''a=1'')"]
  by (simp add: eolLine_def newCurrent_def del: replicate.simps)

lemma compiled_2_lines:
  "compiled textEnv idPasses conv0 (map StatementLineElement (replicate 2 (eolLine ''a=1''))) =
     Returns (Inr \<lparr>Lines = replicate 2 \<lparr>ast_Position = \<lparr>Line = 1, Coloumn = 1\<rparr>,
                                          ast_Statements = [''a=1'']\<rparr>\<rparr>)"
  using compiled_all_EOL [of "replicate 2 (eolLine ''a=1'')"]
  by (simp add: eolLine_def newCurrent_def del: replicate.simps)

text \<open>
  Claim C3. Whenever the compiled program has more than 20 lines, \<^verbatim>\<open>Convert\<close>
  returns (it does not panic) with the \<^verbatim>\<open>parser.Error\<close> whose span runs from line 1,
  column 1 to line 30, column 70; and a program returned with no error has at most 20
  lines.
\<close>

theorem Convert_line_ceiling:
  "(\<forall>out. compiled env P c prog = Returns (Inr out) \<and> length (Lines out) > 20 \<longrightarrow>
      Convert env P c prog = Returns (Some out, Some (ParserError tooLargeError)))
   \<and> (\<forall>out. Convert env P c prog = Returns (Some out, None) \<longrightarrow> length (Lines out) \<le> 20)
   \<and> StartPosition tooLargeError = \<lparr>Line = 1, Coloumn = 1\<rparr>
   \<and> EndPosition tooLargeError = \<lparr>Line = 30, Coloumn = 70\<rparr>"
  by (auto simp: Convert_def tooLargeError_def split: GoResult.splits sum.splits if_splits)

theorem Convert_line_ceiling_witness:
  "Convert textEnv idPasses conv0 (map StatementLineElement (replicate 21 (eolLine ''a=1''))) =
     Returns (Some \<lparr>Lines = replicate 21 \<lparr>ast_Position = \<lparr>Line = 1, Coloumn = 1\<rparr>,
                                            ast_Statements = [''a=1'']\<rparr>\<rparr>,
              Some (ParserError tooLargeError))
   \<and> Convert textEnv idPasses conv0 (map StatementLineElement (replicate 2 (eolLine ''a=1''))) =
     Returns (Some \<lparr>Lines = replicate 2 \<lparr>ast_Position = \<lparr>Line = 1, Coloumn = 1\<rparr>,
                                           ast_Statements = [''a=1'']\<rparr>\<rparr>, None)
   \<and> length (replicate 2 \<lparr>ast_Position = \<lparr>Line = 1, Coloumn = 1\<rparr>,
                           ast_Statements = [''a=1'']\<rparr>) \<le> 20"
proof -
  let ?big = "map StatementLineElement (replicate 21 (eolLine ''a=1''))"
  let ?small = "map StatementLineElement (replicate 2 (eolLine ''a=1''))"
  let ?ln = "\<lparr>ast_Position = \<lparr>Line = 1, Coloumn = 1\<rparr>, ast_Statements = [''a=1'']\<rparr>"
  have c2: "Convert textEnv idPasses conv0 ?small = Returns (Some \<lparr>Lines = replicate 2 ?ln\<rparr>, None)"
    using compiled_2_lines by (simp add: Convert_def)
  from Convert_line_ceiling [of textEnv idPasses conv0 ?big] compiled_21_lines
  have c1: "Convert textEnv idPasses conv0 ?big =
              Returns (Some \<lparr>Lines = replicate 21 ?ln\<rparr>, Some (ParserError tooLargeError))"
    by simp
  from Convert_line_ceiling [of textEnv idPasses conv0 ?small] c2
  have "length (replicate 2 ?ln) \<le> 20" by simp
  with c1 c2 show ?thesis by simp
qed

lemma Convert_fails:
  "lowerAndResolve env P c prog = Inl err \<Longrightarrow> Convert env P c prog = Returns (None, Some err)"
  by (simp add: Convert_def compiled_def)

lemma andThen_Inl [simp]: "andThen (Inl err) k = Inl err"
  by (simp add: andThen_def)

lemma andThen_Inr [simp]: "andThen (Inr st) k = k st"
  by (simp add: andThen_def)

text \<open>
  Claim C10. \<open>c0\<close> is the converter as the first pass finds it. Whichever pass is the
  first to fail (\<^verbatim>\<open>convertNodes\<close>, \<^verbatim>\<open>addFinalGoto\<close>, \<^verbatim>\<open>resolveGotoChains\<close>,
  \<^verbatim>\<open>removeUnusedLabels\<close>, \<^verbatim>\<open>mergeNololElements\<close>, \<^verbatim>\<open>removeDuplicateGotos\<close>,
  \<^verbatim>\<open>findJumpLabels\<close>, \<^verbatim>\<open>replaceGotoLabels\<close>, \<^verbatim>\<open>convertLineFuncCalls\<close>, the
  optimizer), \<^verbatim>\<open>Convert\<close> returns \<^verbatim>\<open>nil\<close> with the error of that pass. When all
  passes go through and the assembled program has more than 20 lines, it returns that
  program together with the error. An error never comes with a program otherwise.
\<close>

theorem Convert_error_results:
  fixes P :: "('z, 's, 'e) Passes"
  assumes c0: "c0 = OptimizeVarName P (c\<lparr>usesTimeTracking := usesTimeTrackingOf P prog\<rparr>)"
  shows
   "(convertNodes P (c0, prog) = Inl err \<longrightarrow>
       Convert env P c prog = Returns (None, Some err))
  \<and> (convertNodes P (c0, prog) = Inr s1 \<and> addFinalGoto P s1 = Inl err \<longrightarrow>
       Convert env P c prog = Returns (None, Some err))
  \<and> (convertNodes P (c0, prog) = Inr s1 \<and> addFinalGoto P s1 = Inr s2 \<and>
     resolveGotoChains P s2 = Inl err \<longrightarrow>
       Convert env P c prog = Returns (None, Some err))
  \<and> (convertNodes P (c0, prog) = Inr s1 \<and> addFinalGoto P s1 = Inr s2 \<and>
     resolveGotoChains P s2 = Inr s3 \<and> removeUnusedLabels P s3 = Inl err \<longrightarrow>
       Convert env P c prog = Returns (None, Some err))
  \<and> (convertNodes P (c0, prog) = Inr s1 \<and> addFinalGoto P s1 = Inr s2 \<and>
     resolveGotoChains P s2 = Inr s3 \<and> removeUnusedLabels P s3 = Inr s4 \<and>
     mergeNololElements env (fst s4) (snd s4) = Inl err \<longrightarrow>
       Convert env P c prog = Returns (None, Some err))
  \<and> (convertNodes P (c0, prog) = Inr s1 \<and> addFinalGoto P s1 = Inr s2 \<and>
     resolveGotoChains P s2 = Inr s3 \<and> removeUnusedLabels P s3 = Inr s4 \<and>
     (mergeNololElements env (fst s4) (snd s4) :: 'e GoError + 's Element list) = Inr merged \<and>
     removeDuplicateGotos P (fst s4, merged) = Inl err \<longrightarrow>
       Convert env P c prog = Returns (None, Some err))
  \<and> (convertNodes P (c0, prog) = Inr s1 \<and> addFinalGoto P s1 = Inr s2 \<and>
     resolveGotoChains P s2 = Inr s3 \<and> removeUnusedLabels P s3 = Inr s4 \<and>
     (mergeNololElements env (fst s4) (snd s4) :: 'e GoError + 's Element list) = Inr merged \<and>
     removeDuplicateGotos P (fst s4, merged) = Inr s6 \<and> findJumpLabels P s6 = Inl err \<longrightarrow>
       Convert env P c prog = Returns (None, Some err))
  \<and> (convertNodes P (c0, prog) = Inr s1 \<and> addFinalGoto P s1 = Inr s2 \<and>
     resolveGotoChains P s2 = Inr s3 \<and> removeUnusedLabels P s3 = Inr s4 \<and>
     (mergeNololElements env (fst s4) (snd s4) :: 'e GoError + 's Element list) = Inr merged \<and>
     removeDuplicateGotos P (fst s4, merged) = Inr s6 \<and> findJumpLabels P s6 = Inr s7 \<and>
     replaceGotoLabels P s7 = Inl err \<longrightarrow>
       Convert env P c prog = Returns (None, Some err))
  \<and> (convertNodes P (c0, prog) = Inr s1 \<and> addFinalGoto P s1 = Inr s2 \<and>
     resolveGotoChains P s2 = Inr s3 \<and> removeUnusedLabels P s3 = Inr s4 \<and>
     (mergeNololElements env (fst s4) (snd s4) :: 'e GoError + 's Element list) = Inr merged \<and>
     removeDuplicateGotos P (fst s4, merged) = Inr s6 \<and> findJumpLabels P s6 = Inr s7 \<and>
     replaceGotoLabels P s7 = Inr s8 \<and> convertLineFuncCalls P s8 = Inl err \<longrightarrow>
       Convert env P c prog = Returns (None, Some err))
  \<and> (convertNodes P (c0, prog) = Inr s1 \<and> addFinalGoto P s1 = Inr s2 \<and>
     resolveGotoChains P s2 = Inr s3 \<and> removeUnusedLabels P s3 = Inr s4 \<and>
     (mergeNololElements env (fst s4) (snd s4) :: 'e GoError + 's Element list) = Inr merged \<and>
     removeDuplicateGotos P (fst s4, merged) = Inr s6 \<and> findJumpLabels P s6 = Inr s7 \<and>
     replaceGotoLabels P s7 = Inr s8 \<and> convertLineFuncCalls P s8 = Inr s9 \<and>
     sexpOptimize P s9 = Inl err \<longrightarrow>
       Convert env P c prog = Returns (None, Some err))
  \<and> (convertNodes P (c0, prog) = Inr s1 \<and> addFinalGoto P s1 = Inr s2 \<and>
     resolveGotoChains P s2 = Inr s3 \<and> removeUnusedLabels P s3 = Inr s4 \<and>
     (mergeNololElements env (fst s4) (snd s4) :: 'e GoError + 's Element list) = Inr merged \<and>
     removeDuplicateGotos P (fst s4, merged) = Inr s6 \<and> findJumpLabels P s6 = Inr s7 \<and>
     replaceGotoLabels P s7 = Inr s8 \<and> convertLineFuncCalls P s8 = Inr s9 \<and>
     sexpOptimize P s9 = Inr s10 \<and>
     toLines (snd (if usesTimeTracking (fst s10) then insertLineCounter P s10 else s10)) =
       Returns ls \<and>
     out = removeFinalGotoIfNeeded P
             (fst (if usesTimeTracking (fst s10) then insertLineCounter P s10 else s10))
             \<lparr>Lines = ls\<rparr> \<and>
     length (Lines out) > 20 \<longrightarrow>
       Convert env P c prog = Returns (Some out, Some (ParserError tooLargeError)))
  \<and> (\<forall>p e. Convert env P c prog = Returns (p, Some e) \<longrightarrow>
       (p = None \<and> lowerAndResolve env P c prog = Inl e) \<or>
       (\<exists>out'. p = Some out' \<and> compiled env P c prog = Returns (Inr out') \<and>
              length (Lines out') > 20 \<and> e = ParserError tooLargeError))"
proof -
  have low: "lowerAndResolve env P c prog =
     andThen (convertNodes P (c0, prog)) (\<lambda>st.
         andThen (addFinalGoto P st) (\<lambda>st.
         andThen (resolveGotoChains P st) (\<lambda>st.
         andThen (removeUnusedLabels P st) (\<lambda>st.
         andThen (mergeStep env st) (\<lambda>st.
         andThen (removeDuplicateGotos P st) (\<lambda>st.
         andThen (findJumpLabels P st) (\<lambda>st.
         andThen (replaceGotoLabels P st) (\<lambda>st.
         andThen (convertLineFuncCalls P st) (\<lambda>st.
         andThen (sexpOptimize P st) (\<lambda>st.
         Inr (if usesTimeTracking (fst st) then insertLineCounter P st else st)))))))))))"
    by (simp add: lowerAndResolve_def c0 Let_def)
  have last: "\<forall>p e. Convert env P c prog = Returns (p, Some e) \<longrightarrow>
       (p = None \<and> lowerAndResolve env P c prog = Inl e) \<or>
       (\<exists>out'. p = Some out' \<and> compiled env P c prog = Returns (Inr out') \<and>
              length (Lines out') > 20 \<and> e = ParserError tooLargeError)"
    by (auto simp: Convert_def compiled_def split: GoResult.splits sum.splits if_splits)
  show ?thesis
    apply (intro conjI impI)
    apply (rule Convert_fails, (elim conjE)?, simp add: low mergeStep_def)+
    apply ((elim conjE)?, simp add: Convert_def compiled_def low mergeStep_def)
    apply (rule last)
    done
qed

lemma merge_one:
  "mergeNololElements textEnv c [StatementLineElement (eolLine ''a=1'')] =
     Inr [StatementLineElement (eolLine ''a=1'')]"
  by (simp add: mergeNololElements_def mergeStatementElements_def eolLine_def newCurrent_def)

lemma merge_replicate_eol:
  "mergeNololElements textEnv c (replicate n (StatementLineElement (eolLine s))) =
     Inr (replicate n (StatementLineElement (eolLine s)))"
proof -
  have nc: "newCurrent (eolLine s) = eolLine s" by (simp add: newCurrent_def eolLine_def)
  have "mergeNololElements textEnv c (map StatementLineElement (replicate n (eolLine s))) =
     Inr (map StatementLineElement (map newCurrent (replicate n (eolLine s))))"
    unfolding mergeNololElements_def mergeStatementElements_def toStatementLines_lines
    by (simp add: mergeLoop_all_EOL eolLine_def del: map_replicate)
  then show ?thesis by (simp add: nc)
qed

lemma toLines_replicate_eol:
  "toLines (replicate n (StatementLineElement (eolLine s))) =
     Returns (replicate n \<lparr>ast_Position = \<lparr>Line = 1, Coloumn = 1\<rparr>, ast_Statements = [s]\<rparr>)"
  using toLines_lines [of "replicate n (eolLine s)"] by (simp add: eolLine_def)

lemma merge_unconverted:
  "mergeNololElements textEnv c [OtherElement T] =
     Inl (ParserError \<lparr> Message = ''Err: Found unconverted nolol-element: '' @ T,
           StartPosition = \<lparr>Line = 0, Coloumn = 0\<rparr>,
           EndPosition = \<lparr>Line = 0, Coloumn = 0\<rparr> \<rparr>)"
  by (simp add: mergeNololElements_def)

lemma merge_too_long:
  "mergeNololElements textEnv conv0
     [StatementLineElement (plainLine [] [longStmt]), StatementLineElement (plainLine [] [''a=1''])] =
     Inl (ParserError (tooLongError textEnv (plainLine [] [longStmt])))"
  by (simp add: mergeNololElements_def mergeStatementElements_def plainLine_def newCurrent_def
      Let_def getLengthOfLine_def textEnv_def HasSuffix_newline_def maxLineLength_def conv0_def
      printerMode_def longStmt_def)

theorem Convert_error_results_witness:
  "Convert textEnv (idPasses\<lparr>convertNodes := \<lambda>st. Inl (OtherError ''convertNodes'')\<rparr>) conv0 [StatementLineElement (eolLine ''a=1'')] =
     Returns (None, Some (OtherError ''convertNodes''))
   \<and> Convert textEnv (idPasses\<lparr>addFinalGoto := \<lambda>st. Inl (OtherError ''addFinalGoto'')\<rparr>) conv0 [StatementLineElement (eolLine ''a=1'')] =
     Returns (None, Some (OtherError ''addFinalGoto''))
   \<and> Convert textEnv (idPasses\<lparr>resolveGotoChains := \<lambda>st. Inl (OtherError ''resolveGotoChains'')\<rparr>) conv0 [StatementLineElement (eolLine ''a=1'')] =
     Returns (None, Some (OtherError ''resolveGotoChains''))
   \<and> Convert textEnv (idPasses\<lparr>removeUnusedLabels := \<lambda>st. Inl (OtherError ''removeUnusedLabels'')\<rparr>) conv0 [StatementLineElement (eolLine ''a=1'')] =
     Returns (None, Some (OtherError ''removeUnusedLabels''))
   \<and> Convert textEnv (idPasses\<lparr>removeDuplicateGotos := \<lambda>st. Inl (OtherError ''removeDuplicateGotos'')\<rparr>) conv0 [StatementLineElement (eolLine ''a=1'')] =
     Returns (None, Some (OtherError ''removeDuplicateGotos''))
   \<and> Convert textEnv (idPasses\<lparr>findJumpLabels := \<lambda>st. Inl (OtherError ''findJumpLabels'')\<rparr>) conv0 [StatementLineElement (eolLine ''a=1'')] =
     Returns (None, Some (OtherError ''findJumpLabels''))
   \<and> Convert textEnv (idPasses\<lparr>replaceGotoLabels := \<lambda>st. Inl (OtherError ''replaceGotoLabels'')\<rparr>) conv0 [StatementLineElement (eolLine ''a=1'')] =
     Returns (None, Some (OtherError ''replaceGotoLabels''))
   \<and> Convert textEnv (idPasses\<lparr>convertLineFuncCalls := \<lambda>st. Inl (OtherError ''convertLineFuncCalls'')\<rparr>) conv0 [StatementLineElement (eolLine ''a=1'')] =
     Returns (None, Some (OtherError ''convertLineFuncCalls''))
   \<and> Convert textEnv (idPasses\<lparr>sexpOptimize := \<lambda>st. Inl (OtherError ''sexpOptimize'')\<rparr>) conv0 [StatementLineElement (eolLine ''a=1'')] =
     Returns (None, Some (OtherError ''sexpOptimize''))
   \<and> Convert textEnv idPasses conv0 [OtherElement ''*nast.WhileLoop''] =
     Returns (None, Some (ParserError
       \<lparr> Message = ''Err: Found unconverted nolol-element: *nast.WhileLoop'',
         StartPosition = \<lparr>Line = 0, Coloumn = 0\<rparr>,
         EndPosition = \<lparr>Line = 0, Coloumn = 0\<rparr> \<rparr>))
   \<and> Convert textEnv idPasses conv0
       [StatementLineElement (plainLine [] [longStmt]), StatementLineElement (plainLine [] [''a=1''])] =
     Returns (None, Some (ParserError (tooLongError textEnv (plainLine [] [longStmt]))))
   \<and> Convert textEnv idPasses conv0 (replicate 21 (StatementLineElement (eolLine ''a=1''))) =
     Returns (Some \<lparr>Lines = replicate 21 \<lparr>ast_Position = \<lparr>Line = 1, Coloumn = 1\<rparr>,
                                            ast_Statements = [''a=1'']\<rparr>\<rparr>,
              Some (ParserError tooLargeError))
   \<and> lowerAndResolve textEnv (idPasses\<lparr>convertNodes := \<lambda>st. Inl (OtherError ''convertNodes'')\<rparr>)
       conv0 [StatementLineElement (eolLine ''a=1'')] = Inl (OtherError ''convertNodes'')"
proof -
  let ?one = "[StatementLineElement (eolLine ''a=1'')]"
  let ?st = "(conv0\<lparr>usesTimeTracking := False\<rparr>, ?one)"
  have w0: "Convert textEnv (idPasses\<lparr>convertNodes := \<lambda>st. Inl (OtherError ''convertNodes'')\<rparr>) conv0 ?one =
     Returns (None, Some (OtherError ''convertNodes''))"
    using Convert_error_results [OF refl, where env = textEnv and P = "idPasses\<lparr>convertNodes := \<lambda>st. Inl (OtherError ''convertNodes'')\<rparr>"
        and c = conv0 and prog = ?one and err = "OtherError ''convertNodes''",
        THEN conjunct1]
    by (simp add: idPasses_def merge_one)
  have w1: "Convert textEnv (idPasses\<lparr>addFinalGoto := \<lambda>st. Inl (OtherError ''addFinalGoto'')\<rparr>) conv0 ?one =
     Returns (None, Some (OtherError ''addFinalGoto''))"
    using Convert_error_results [OF refl, where env = textEnv and P = "idPasses\<lparr>addFinalGoto := \<lambda>st. Inl (OtherError ''addFinalGoto'')\<rparr>"
        and c = conv0 and prog = ?one and err = "OtherError ''addFinalGoto''"
        and ?s1.0 = ?st,
        THEN conjunct2, THEN conjunct1]
    by (simp add: idPasses_def merge_one)
  have w2: "Convert textEnv (idPasses\<lparr>resolveGotoChains := \<lambda>st. Inl (OtherError ''resolveGotoChains'')\<rparr>) conv0 ?one =
     Returns (None, Some (OtherError ''resolveGotoChains''))"
    using Convert_error_results [OF refl, where env = textEnv and P = "idPasses\<lparr>resolveGotoChains := \<lambda>st. Inl (OtherError ''resolveGotoChains'')\<rparr>"
        and c = conv0 and prog = ?one and err = "OtherError ''resolveGotoChains''"
        and ?s1.0 = ?st
        and ?s2.0 = ?st,
        THEN conjunct2, THEN conjunct2, THEN conjunct1]
    by (simp add: idPasses_def merge_one)
  have w3: "Convert textEnv (idPasses\<lparr>removeUnusedLabels := \<lambda>st. Inl (OtherError ''removeUnusedLabels'')\<rparr>) conv0 ?one =
     Returns (None, Some (OtherError ''removeUnusedLabels''))"
    using Convert_error_results [OF refl, where env = textEnv and P = "idPasses\<lparr>removeUnusedLabels := \<lambda>st. Inl (OtherError ''removeUnusedLabels'')\<rparr>"
        and c = conv0 and prog = ?one and err = "OtherError ''removeUnusedLabels''"
        and ?s1.0 = ?st
        and ?s2.0 = ?st
        and ?s3.0 = ?st,
        THEN conjunct2, THEN conjunct2, THEN conjunct2, THEN conjunct1]
    by (simp add: idPasses_def merge_one)
  have w5: "Convert textEnv (idPasses\<lparr>removeDuplicateGotos := \<lambda>st. Inl (OtherError ''removeDuplicateGotos'')\<rparr>) conv0 ?one =
     Returns (None, Some (OtherError ''removeDuplicateGotos''))"
    using Convert_error_results [OF refl, where env = textEnv and P = "idPasses\<lparr>removeDuplicateGotos := \<lambda>st. Inl (OtherError ''removeDuplicateGotos'')\<rparr>"
        and c = conv0 and prog = ?one and err = "OtherError ''removeDuplicateGotos''"
        and ?s1.0 = ?st
        and ?s2.0 = ?st
        and ?s3.0 = ?st
        and ?s4.0 = ?st
        and merged = "[StatementLineElement (eolLine ''a=1'')]",
        THEN conjunct2, THEN conjunct2, THEN conjunct2, THEN conjunct2, THEN conjunct2, THEN conjunct1]
    by (simp add: idPasses_def merge_one)
  have w6: "Convert textEnv (idPasses\<lparr>findJumpLabels := \<lambda>st. Inl (OtherError ''findJumpLabels'')\<rparr>) conv0 ?one =
     Returns (None, Some (OtherError ''findJumpLabels''))"
    using Convert_error_results [OF refl, where env = textEnv and P = "idPasses\<lparr>findJumpLabels := \<lambda>st. Inl (OtherError ''findJumpLabels'')\<rparr>"
        and c = conv0 and prog = ?one and err = "OtherError ''findJumpLabels''"
        and ?s1.0 = ?st
        and ?s2.0 = ?st
        and ?s3.0 = ?st
        and ?s4.0 = ?st
        and merged = "[StatementLineElement (eolLine ''a=1'')]"
        and ?s6.0 = ?st,
        THEN conjunct2, THEN conjunct2, THEN conjunct2, THEN conjunct2, THEN conjunct2, THEN conjunct2, THEN conjunct1]
    by (simp add: idPasses_def merge_one)
  have w7: "Convert textEnv (idPasses\<lparr>replaceGotoLabels := \<lambda>st. Inl (OtherError ''replaceGotoLabels'')\<rparr>) conv0 ?one =
     Returns (None, Some (OtherError ''replaceGotoLabels''))"
    using Convert_error_results [OF refl, where env = textEnv and P = "idPasses\<lparr>replaceGotoLabels := \<lambda>st. Inl (OtherError ''replaceGotoLabels'')\<rparr>"
        and c = conv0 and prog = ?one and err = "OtherError ''replaceGotoLabels''"
        and ?s1.0 = ?st
        and ?s2.0 = ?st
        and ?s3.0 = ?st
        and ?s4.0 = ?st
        and merged = "[StatementLineElement (eolLine ''a=1'')]"
        and ?s6.0 = ?st
        and ?s7.0 = ?st,
        THEN conjunct2, THEN conjunct2, THEN conjunct2, THEN conjunct2, THEN conjunct2, THEN conjunct2, THEN conjunct2, THEN conjunct1]
    by (simp add: idPasses_def merge_one)
  have w8: "Convert textEnv (idPasses\<lparr>convertLineFuncCalls := \<lambda>st. Inl (OtherError ''convertLineFuncCalls'')\<rparr>) conv0 ?one =
     Returns (None, Some (OtherError ''convertLineFuncCalls''))"
    using Convert_error_results [OF refl, where env = textEnv and P = "idPasses\<lparr>convertLineFuncCalls := \<lambda>st. Inl (OtherError ''convertLineFuncCalls'')\<rparr>"
        and c = conv0 and prog = ?one and err = "OtherError ''convertLineFuncCalls''"
        and ?s1.0 = ?st
        and ?s2.0 = ?st
        and ?s3.0 = ?st
        and ?s4.0 = ?st
        and merged = "[StatementLineElement (eolLine ''a=1'')]"
        and ?s6.0 = ?st
        and ?s7.0 = ?st
        and ?s8.0 = ?st,
        THEN conjunct2, THEN conjunct2, THEN conjunct2, THEN conjunct2, THEN conjunct2, THEN conjunct2, THEN conjunct2, THEN conjunct2, THEN conjunct1]
    by (simp add: idPasses_def merge_one)
  have w9: "Convert textEnv (idPasses\<lparr>sexpOptimize := \<lambda>st. Inl (OtherError ''sexpOptimize'')\<rparr>) conv0 ?one =
     Returns (None, Some (OtherError ''sexpOptimize''))"
    using Convert_error_results [OF refl, where env = textEnv and P = "idPasses\<lparr>sexpOptimize := \<lambda>st. Inl (OtherError ''sexpOptimize'')\<rparr>"
        and c = conv0 and prog = ?one and err = "OtherError ''sexpOptimize''"
        and ?s1.0 = ?st
        and ?s2.0 = ?st
        and ?s3.0 = ?st
        and ?s4.0 = ?st
        and merged = "[StatementLineElement (eolLine ''a=1'')]"
        and ?s6.0 = ?st
        and ?s7.0 = ?st
        and ?s8.0 = ?st
        and ?s9.0 = ?st,
        THEN conjunct2, THEN conjunct2, THEN conjunct2, THEN conjunct2, THEN conjunct2, THEN conjunct2, THEN conjunct2, THEN conjunct2, THEN conjunct2, THEN conjunct1]
    by (simp add: idPasses_def merge_one)
  let ?c0 = "conv0\<lparr>usesTimeTracking := False\<rparr>"
  let ?bad = "[OtherElement ''*nast.WhileLoop'']"
  let ?unconverted = "ParserError
       \<lparr> Message = ''Err: Found unconverted nolol-element: *nast.WhileLoop'',
         StartPosition = \<lparr>Line = 0, Coloumn = 0\<rparr>,
         EndPosition = \<lparr>Line = 0, Coloumn = 0\<rparr> \<rparr> :: string GoError"
  have m1: "Convert textEnv idPasses conv0 ?bad = Returns (None, Some ?unconverted)"
    using Convert_error_results [OF refl, where env = textEnv and P = idPasses
        and c = conv0 and prog = ?bad and err = ?unconverted
        and ?s1.0 = "(?c0, ?bad)" and ?s2.0 = "(?c0, ?bad)" and ?s3.0 = "(?c0, ?bad)"
        and ?s4.0 = "(?c0, ?bad)",
        THEN conjunct2, THEN conjunct2, THEN conjunct2, THEN conjunct2, THEN conjunct1]
    by (simp add: idPasses_def merge_unconverted)
  let ?long = "[StatementLineElement (plainLine [] [longStmt]),
                StatementLineElement (plainLine [] [''a=1''])]"
  let ?tooLong = "ParserError (tooLongError textEnv (plainLine [] [longStmt])) :: string GoError"
  have c0: "?c0 = conv0" by (simp add: conv0_def)
  have m2: "Convert textEnv idPasses conv0 ?long = Returns (None, Some ?tooLong)"
    using Convert_error_results [OF refl, where env = textEnv and P = idPasses
        and c = conv0 and prog = ?long and err = ?tooLong
        and ?s1.0 = "(?c0, ?long)" and ?s2.0 = "(?c0, ?long)" and ?s3.0 = "(?c0, ?long)"
        and ?s4.0 = "(?c0, ?long)",
        THEN conjunct2, THEN conjunct2, THEN conjunct2, THEN conjunct2, THEN conjunct1]
    by (simp add: idPasses_def c0 merge_too_long)
  let ?big = "replicate 21 (StatementLineElement (eolLine ''a=1''))"
  let ?ls = "replicate 21 \<lparr>ast_Position = \<lparr>Line = 1, Coloumn = 1\<rparr>, ast_Statements = [''a=1'']\<rparr>"
  have big: "Convert textEnv idPasses conv0 ?big =
     Returns (Some \<lparr>Lines = ?ls\<rparr>, Some (ParserError tooLargeError))"
    using Convert_error_results [OF refl, where env = textEnv and P = idPasses
        and c = conv0 and prog = ?big
        and ?s1.0 = "(?c0, ?big)" and ?s2.0 = "(?c0, ?big)" and ?s3.0 = "(?c0, ?big)"
        and ?s4.0 = "(?c0, ?big)" and merged = ?big and ?s6.0 = "(?c0, ?big)"
        and ?s7.0 = "(?c0, ?big)" and ?s8.0 = "(?c0, ?big)" and ?s9.0 = "(?c0, ?big)"
        and ?s10.0 = "(?c0, ?big)" and ls = ?ls and out = "\<lparr>Lines = ?ls\<rparr>",
        THEN conjunct2, THEN conjunct2, THEN conjunct2, THEN conjunct2, THEN conjunct2,
        THEN conjunct2, THEN conjunct2, THEN conjunct2, THEN conjunct2, THEN conjunct2,
        THEN conjunct1]
    by (simp add: idPasses_def merge_replicate_eol toLines_replicate_eol del: replicate.simps)
  have conv: "lowerAndResolve textEnv
       (idPasses\<lparr>convertNodes := \<lambda>st. Inl (OtherError ''convertNodes'')\<rparr>)
       conv0 ?one = Inl (OtherError ''convertNodes'')"
    using Convert_error_results [OF refl, where env = textEnv
        and P = "idPasses\<lparr>convertNodes := \<lambda>st. Inl (OtherError ''convertNodes'')\<rparr>"
        and c = conv0 and prog = ?one,
        THEN conjunct2, THEN conjunct2, THEN conjunct2, THEN conjunct2, THEN conjunct2,
        THEN conjunct2, THEN conjunct2, THEN conjunct2, THEN conjunct2, THEN conjunct2,
        THEN conjunct2, rule_format, OF w0]
    by simp
  from w0 w1 w2 w3 w5 w6 w7 w8 w9 m1 m2 big conv show ?thesis by (intro conjI)
qed

section \<open>Properties of the line packer\<close>

lemma absorb_Cons_split:
  assumes "absorb env c cur (n # rest) = Inr (cur', rest')"
  obtains
    (stop) "cur' = cur" "rest' = n # rest"
  | (eol) "Label n = []" "\<not> HasBOL n" "HasEOL n"
      "cur' = cur\<lparr>Statements := Statements cur @ Statements n\<rparr>" "rest' = rest"
      "getLengthOfLine env c (Statements cur @ Statements n) \<le> maxLineLength c"
  | (more) "Label n = []" "\<not> HasBOL n" "\<not> HasEOL n"
      "absorb env c (cur\<lparr>Statements := Statements cur @ Statements n\<rparr>) rest = Inr (cur', rest')"
      "getLengthOfLine env c (Statements cur @ Statements n) \<le> maxLineLength c"
  using assms by (auto simp: Let_def split: if_splits)

lemma newCurrent_fields [simp]:
  "Statements (newCurrent l) = Statements l" "Label (newCurrent l) = Label l"
  "LinePosition (newCurrent l) = LinePosition l" "HasEOL (newCurrent l) = HasEOL l"
  "HasBOL (newCurrent l) = False"
  by (simp_all add: newCurrent_def)

lemma mergeLoop_Cons_cases:
  assumes "mergeLoop env c acc (l # rest) = (out, None)"
  obtains
    (eol) "HasEOL l" "mergeLoop env c (acc @ [newCurrent l]) rest = (out, None)"
  | (abs) cur' rest' where "\<not> HasEOL l"
      "absorb env c (newCurrent l) rest = Inr (cur', rest')"
      "mergeLoop env c (acc @ [cur']) rest' = (out, None)"
proof (cases "HasEOL l")
  case True
  with assms have "mergeLoop env c (acc @ [newCurrent l]) rest = (out, None)"
    by (simp add: Let_def newCurrent_def)
  with True show ?thesis by (rule eol)
next
  case False
  then have ne: "\<not> HasEOL (newCurrent l)" by (simp add: newCurrent_def)
  show ?thesis
  proof (cases "absorb env c (newCurrent l) rest")
    case (Inl a)
    with assms ne show ?thesis by (simp add: Let_def split: prod.splits)
  next
    case (Inr b)
    obtain cur' rest' where b: "b = (cur', rest')" by (cases b)
    with assms ne Inr have "mergeLoop env c (acc @ [cur']) rest' = (out, None)"
      by (simp add: Let_def)
    with False Inr b show ?thesis by (auto intro: abs)
  qed
qed







text \<open>
  The inner loop takes a prefix of the lines after the accumulator, and the whole
  output is the input cut into valid groups, each joined into one line.
\<close>

lemma absorb_taken:
  "absorb env c cur rest = Inr (cur', rest') \<Longrightarrow>
   \<exists>taken. rest = taken @ rest' \<and>
     cur' = cur\<lparr>Statements := Statements cur @ concat (map Statements taken)\<rparr> \<and>
     (\<forall>n \<in> set taken. Label n = [] \<and> \<not> HasBOL n) \<and>
     (\<forall>n \<in> set (butlast taken). \<not> HasEOL n) \<and>
     (taken \<noteq> [] \<longrightarrow> getLengthOfLine env c (Statements cur') \<le> maxLineLength c)"
proof (induction rest arbitrary: cur)
  case Nil
  then show ?case by simp
next
  case (Cons n rest)
  let ?app = "cur\<lparr>Statements := Statements cur @ Statements n\<rparr>"
  from Cons.prems show ?case
  proof (cases rule: absorb_Cons_split)
    case stop
    then have "n # rest = [] @ rest' \<and>
      cur' = cur\<lparr>Statements := Statements cur @ concat (map Statements [])\<rparr>" by simp
    then show ?thesis by (intro exI [of _ "[]"]) simp
  next
    case eol
    then show ?thesis by (intro exI [of _ "[n]"]) simp
  next
    case more
    from Cons.IH [OF more(4)] obtain taken where
      t: "rest = taken @ rest'"
         "cur' = ?app\<lparr>Statements := Statements ?app @ concat (map Statements taken)\<rparr>"
         "\<forall>n \<in> set taken. Label n = [] \<and> \<not> HasBOL n"
         "\<forall>n \<in> set (butlast taken). \<not> HasEOL n"
         "taken \<noteq> [] \<longrightarrow> getLengthOfLine env c (Statements cur') \<le> maxLineLength c"
      by blast
    have len: "getLengthOfLine env c (Statements cur') \<le> maxLineLength c"
    proof (cases "taken = []")
      case True
      with t(2) more(5) show ?thesis by simp
    next
      case False
      with t(5) show ?thesis by simp
    qed
    from t more len show ?thesis
      by (intro exI [of _ "n # taken"]) simp
  qed
qed

lemma merge_groups:
  "mergeLoop env c acc lines = (out, None) \<Longrightarrow>
   \<exists>groups. concat groups = lines \<and> (\<forall>g \<in> set groups. validGroup env c g) \<and>
            out = acc @ map joinGroup groups"
proof (induction "length lines" arbitrary: acc lines rule: less_induct)
  case less
  show ?case
  proof (cases lines)
    case Nil
    with less.prems have "concat [] = lines \<and> out = acc @ map joinGroup []" by simp
    then show ?thesis by (intro exI [of _ "[]"]) simp
  next
    case (Cons l rest)
    from less.prems [unfolded Cons] show ?thesis
    proof (cases rule: mergeLoop_Cons_cases)
      case eol
      from less.hyps [OF _ eol(2)] Cons obtain groups where
        g: "concat groups = rest" "\<forall>g \<in> set groups. validGroup env c g"
           "out = (acc @ [newCurrent l]) @ map joinGroup groups"
        by auto
      have "validGroup env c [l]" by (simp add: validGroup_def)
      moreover have "joinGroup [l] = newCurrent l" by (simp add: joinGroup_def newCurrent_def)
      ultimately show ?thesis using g Cons
        by (intro exI [of _ "[l] # groups"]) simp
    next
      case (abs cur' rest')
      from absorb_rest_length [OF abs(2)] Cons have "length rest' < length lines" by simp
      from less.hyps [OF this abs(3)] obtain groups where
        g: "concat groups = rest'" "\<forall>g \<in> set groups. validGroup env c g"
           "out = (acc @ [cur']) @ map joinGroup groups"
        by auto
      from absorb_taken [OF abs(2)] obtain taken where
        t: "rest = taken @ rest'"
           "cur' = (newCurrent l)\<lparr>Statements := Statements (newCurrent l) @ concat (map Statements taken)\<rparr>"
           "\<forall>n \<in> set taken. Label n = [] \<and> \<not> HasBOL n"
           "\<forall>n \<in> set (butlast taken). \<not> HasEOL n"
           "taken \<noteq> [] \<longrightarrow> getLengthOfLine env c (Statements cur') \<le> maxLineLength c"
        by blast
      have j: "joinGroup (l # taken) = cur'"
        using t(2) by (simp add: joinGroup_def)
      have v: "validGroup env c (l # taken)"
        using t abs(1) by (auto simp: validGroup_def)
      from g t(1) j v Cons show ?thesis
        by (intro exI [of _ "(l # taken) # groups"]) simp
    qed
  qed
qed

text \<open>
  When every line of the input is within the budget, the merge returns no error and
  every line it returns is within the budget.
\<close>

lemma absorb_no_error:
  "getLengthOfLine env c (Statements cur) \<le> maxLineLength c \<Longrightarrow>
   \<exists>cur' rest'. absorb env c cur rest = Inr (cur', rest')"
proof (induction rest arbitrary: cur)
  case Nil
  then show ?case by simp
next
  case (Cons n rest)
  let ?app = "cur\<lparr>Statements := Statements cur @ Statements n\<rparr>"
  show ?case
  proof (cases "Label n = [] \<and> \<not> HasBOL n \<and> \<not> HasEOL n \<and>
      getLengthOfLine env c (Statements cur @ Statements n) \<le> maxLineLength c")
    case True
    then have "getLengthOfLine env c (Statements ?app) \<le> maxLineLength c" by simp
    from Cons.IH [OF this] obtain cur' rest' where
      "absorb env c ?app rest = Inr (cur', rest')" by blast
    with True Cons.prems have "absorb env c cur (n # rest) = Inr (cur', rest')"
      by (simp add: Let_def)
    then show ?thesis by blast
  next
    case False
    with Cons.prems show ?thesis by (auto simp: Let_def)
  qed
qed

lemma mergeLoop_no_error:
  "\<forall>l \<in> set lines. getLengthOfLine env c (Statements l) \<le> maxLineLength c \<Longrightarrow>
   snd (mergeLoop env c acc lines) = None"
proof (induction "length lines" arbitrary: acc lines rule: less_induct)
  case less
  show ?case
  proof (cases lines)
    case Nil
    then show ?thesis by simp
  next
    case (Cons l rest)
    show ?thesis
    proof (cases "HasEOL l")
      case True
      from less.prems Cons
      have "\<forall>l \<in> set rest. getLengthOfLine env c (Statements l) \<le> maxLineLength c" by simp
      from less.hyps [OF _ this, of "acc @ [newCurrent l]"] Cons True
      show ?thesis by (simp add: Let_def)
    next
      case False
      from less.prems Cons
      have "getLengthOfLine env c (Statements (newCurrent l)) \<le> maxLineLength c" by simp
      from absorb_no_error [OF this] obtain cur' rest' where
        ab: "absorb env c (newCurrent l) rest = Inr (cur', rest')" by blast
      from absorb_taken [OF ab] obtain taken where "rest = taken @ rest'" by blast
      with less.prems Cons
      have r: "\<forall>l \<in> set rest'. getLengthOfLine env c (Statements l) \<le> maxLineLength c" by auto
      from absorb_rest_length [OF ab] Cons have "length rest' < length lines" by simp
      from less.hyps [OF this r, of "acc @ [cur']"] ab False Cons
      show ?thesis by (simp add: Let_def)
    qed
  qed
qed

lemma validGroup_within:
  assumes "validGroup env c g"
    and "\<forall>l \<in> set g. getLengthOfLine env c (Statements l) \<le> maxLineLength c"
  shows "getLengthOfLine env c (Statements (joinGroup g)) \<le> maxLineLength c"
proof (cases g)
  case Nil
  with assms(1) show ?thesis by (simp add: validGroup_def)
next
  case (Cons l ls)
  show ?thesis
  proof (cases ls)
    case Nil
    with Cons assms(2) show ?thesis by (simp add: joinGroup_def)
  next
    case (Cons m ms)
    with \<open>g = l # ls\<close> assms(1) show ?thesis
      by (simp add: validGroup_def joinGroup_def)
  qed
qed

lemma merged_lines_within_budget:
  assumes "\<forall>l \<in> set lines. getLengthOfLine env c (Statements l) \<le> maxLineLength c"
  shows "\<exists>out. mergeStatementElements env c lines = (out, None) \<and>
           (\<forall>l \<in> set out. getLengthOfLine env c (Statements l) \<le> maxLineLength c)"
proof -
  obtain out err where m: "mergeLoop env c [] lines = (out, err)"
    by (cases "mergeLoop env c [] lines")
  with mergeLoop_no_error [OF assms, of "[]"] have e: "err = None" by simp
  from merge_groups [OF m [unfolded e]] obtain groups where
    g: "concat groups = lines" "\<forall>g \<in> set groups. validGroup env c g"
       "out = map joinGroup groups"
    by auto
  have "\<forall>l \<in> set out. getLengthOfLine env c (Statements l) \<le> maxLineLength c"
  proof
    fix l assume "l \<in> set out"
    with g(3) obtain gr where gr: "gr \<in> set groups" "l = joinGroup gr" by auto
    from gr(1) g(1) have "set gr \<subseteq> set lines" by auto
    with assms have "\<forall>l \<in> set gr. getLengthOfLine env c (Statements l) \<le> maxLineLength c"
      by auto
    from validGroup_within [OF _ this] g(2) gr
    show "getLengthOfLine env c (Statements l) \<le> maxLineLength c" by simp
  qed
  with m e show ?thesis by (simp add: mergeStatementElements_def)
qed

text \<open>
  Where the length check is reached: an accumulator over the budget with a line after
  it is reported, with the span of the accumulator.
\<close>

lemma absorb_reports_overlong:
  "getLengthOfLine env c (Statements current) > maxLineLength c \<Longrightarrow>
   absorb env c current (nextline # rest) = Inl (current, tooLongError env current)"
  by simp

lemma merge_reports_overlong_head:
  assumes "getLengthOfLine env c (Statements l) > maxLineLength c" "\<not> HasEOL l"
  shows "mergeStatementElements env c (l # nextline # rest) =
           ([newCurrent l], Some (tooLongError env (newCurrent l)))"
  using assms by (simp add: mergeStatementElements_def Let_def)

lemma getLengthOfLine_textEnv [simp]: "getLengthOfLine textEnv c stmts =
   (if concat stmts \<noteq> [] \<and> last (concat stmts) = CHR 0x0A then length (concat stmts) - 1 else length (concat stmts))"
  by (simp add: getLengthOfLine_def textEnv_def HasSuffix_newline_def Let_def)

lemma maxLineLength_conv0 [simp]: "maxLineLength conv0 = 70"
  by (simp add: maxLineLength_def conv0_def)

lemma length_longStmt [simp]: "length longStmt = 71"
  by (simp add: longStmt_def)

lemma longStmt_no_newline [simp]: "last longStmt \<noteq> CHR 0x0A"
  by (simp add: longStmt_def)

lemma longStmt_nonempty [simp]: "longStmt \<noteq> []"
  by (simp add: longStmt_def)















text \<open>
  Claim C5. One pass of the inner loop, for an accumulator that is within the budget:
  a next line with a label or the must-start marker is left where it is and the
  physical line is closed; an append that goes over the budget is undone, the
  accumulator is exactly what it was and the physical line is closed; a next line with
  the must-end marker is appended and the physical line is closed after it; any other
  next line is appended and the loop goes on. A line with the must-end marker becomes
  a physical line of its own statements, and the outer loop goes on with the line
  after it; otherwise the outer loop goes on with what the inner loop left.
\<close>

theorem absorb_step_rules:
  assumes "getLengthOfLine env c (Statements current) \<le> maxLineLength c"
  shows "(Label nextline \<noteq> [] \<or> HasBOL nextline \<longrightarrow>
            absorb env c current (nextline # rest) = Inr (current, nextline # rest))
       \<and> (Label nextline = [] \<and> \<not> HasBOL nextline \<and>
          getLengthOfLine env c (Statements current @ Statements nextline) > maxLineLength c \<longrightarrow>
            absorb env c current (nextline # rest) = Inr (current, nextline # rest))
       \<and> (Label nextline = [] \<and> \<not> HasBOL nextline \<and> HasEOL nextline \<and>
          getLengthOfLine env c (Statements current @ Statements nextline) \<le> maxLineLength c \<longrightarrow>
            absorb env c current (nextline # rest) =
              Inr (current\<lparr>Statements := Statements current @ Statements nextline\<rparr>, rest))
       \<and> (Label nextline = [] \<and> \<not> HasBOL nextline \<and> \<not> HasEOL nextline \<and>
          getLengthOfLine env c (Statements current @ Statements nextline) \<le> maxLineLength c \<longrightarrow>
            absorb env c current (nextline # rest) =
              absorb env c (current\<lparr>Statements := Statements current @ Statements nextline\<rparr>) rest)
       \<and> (HasEOL l \<longrightarrow>
            mergeLoop env c newElements (l # rest) =
              mergeLoop env c (newElements @ [newCurrent l]) rest)
       \<and> (\<not> HasEOL l \<and> absorb env c (newCurrent l) rest = Inr (current', rest') \<longrightarrow>
            mergeLoop env c newElements (l # rest) =
              mergeLoop env c (newElements @ [current']) rest')"
  using assms by (simp add: Let_def)

theorem absorb_step_rules_witness:
  "absorb textEnv conv0 (plainLine [] [''a=1'']) [plainLine ''x'' [''b=2'']] =
     Inr (plainLine [] [''a=1''], [plainLine ''x'' [''b=2'']])
   \<and> absorb textEnv conv0 (plainLine [] [''a=1'']) [plainLine [] [longStmt], plainLine [] [''c=3'']] =
     Inr (plainLine [] [''a=1''], [plainLine [] [longStmt], plainLine [] [''c=3'']])
   \<and> absorb textEnv conv0 (plainLine [] [''a=1'']) [eolLine ''b=2'', plainLine [] [''c=3'']] =
     Inr (plainLine [] [''a=1'', ''b=2''], [plainLine [] [''c=3'']])
   \<and> absorb textEnv conv0 (plainLine [] [''a=1'']) [plainLine [] [''b=2''], plainLine ''x'' [''c=3'']] =
     Inr (plainLine [] [''a=1'', ''b=2''], [plainLine ''x'' [''c=3'']])
   \<and> mergeLoop textEnv conv0 [] [eolLine ''a=1'', plainLine [] [''b=2'']] =
     ([eolLine ''a=1'', plainLine [] [''b=2'']], None)
   \<and> mergeLoop textEnv conv0 [] [plainLine [] [''a=1''], plainLine [] [''b=2'']] =
     ([plainLine [] [''a=1'', ''b=2'']], None)"
proof -
  let ?a = "plainLine [] [''a=1'']"
  have within: "getLengthOfLine textEnv conv0 (Statements ?a) \<le> maxLineLength conv0"
    by (simp add: plainLine_def)
  have w1: "absorb textEnv conv0 ?a [plainLine ''x'' [''b=2'']] =
              Inr (?a, [plainLine ''x'' [''b=2'']])"
    using absorb_step_rules [OF within, where nextline = "plainLine ''x'' [''b=2'']" and rest = "[]",
        THEN conjunct1]
    by (simp add: plainLine_def)
  have w2: "absorb textEnv conv0 ?a [plainLine [] [longStmt], plainLine [] [''c=3'']] =
              Inr (?a, [plainLine [] [longStmt], plainLine [] [''c=3'']])"
    using absorb_step_rules [OF within, where nextline = "plainLine [] [longStmt]"
        and rest = "[plainLine [] [''c=3'']]",
        THEN conjunct2, THEN conjunct1]
    by (simp add: plainLine_def)
  have w3: "absorb textEnv conv0 ?a [eolLine ''b=2'', plainLine [] [''c=3'']] =
              Inr (plainLine [] [''a=1'', ''b=2''], [plainLine [] [''c=3'']])"
    using absorb_step_rules [OF within, where nextline = "eolLine ''b=2''"
        and rest = "[plainLine [] [''c=3'']]",
        THEN conjunct2, THEN conjunct2, THEN conjunct1]
    by (simp add: plainLine_def eolLine_def)
  have w4: "absorb textEnv conv0 ?a [plainLine [] [''b=2''], plainLine ''x'' [''c=3'']] =
              Inr (plainLine [] [''a=1'', ''b=2''], [plainLine ''x'' [''c=3'']])"
    using absorb_step_rules [OF within, where nextline = "plainLine [] [''b=2'']"
        and rest = "[plainLine ''x'' [''c=3'']]",
        THEN conjunct2, THEN conjunct2, THEN conjunct2, THEN conjunct1]
    by (simp add: plainLine_def Let_def)
  have w5: "mergeLoop textEnv conv0 [] [eolLine ''a=1'', plainLine [] [''b=2'']] =
              ([eolLine ''a=1'', plainLine [] [''b=2'']], None)"
    using absorb_step_rules [OF within, where rest = "[plainLine [] [''b=2'']]"
        and l = "eolLine ''a=1''" and newElements = "[]",
        THEN conjunct2, THEN conjunct2, THEN conjunct2, THEN conjunct2, THEN conjunct1]
    by (simp add: plainLine_def eolLine_def newCurrent_def Let_def)
  have ab: "absorb textEnv conv0 (newCurrent ?a) [plainLine [] [''b=2'']] =
              Inr (plainLine [] [''a=1'', ''b=2''], [])"
    by (simp add: plainLine_def newCurrent_def Let_def)
  have w6: "mergeLoop textEnv conv0 [] [?a, plainLine [] [''b=2'']] =
              ([plainLine [] [''a=1'', ''b=2'']], None)"
    using absorb_step_rules [OF within, where rest = "[plainLine [] [''b=2'']]" and l = ?a
        and newElements = "[]" and current' = "plainLine [] [''a=1'', ''b=2'']" and rest' = "[]",
        THEN conjunct2, THEN conjunct2, THEN conjunct2, THEN conjunct2, THEN conjunct2] ab
    by (simp add: plainLine_def)
  from w1 w2 w3 w4 w5 w6 show ?thesis by (intro conjI)
qed

text \<open>
  Claim C2, at inputs where the code and the claim part. The budget is 70, or 66 with
  time tracking. A line of 71 characters that carries the must-end marker, between two
  short lines, passes the merge with no error, and so does a program of that one line
  without the marker: a line the merge returns is over the budget of 70.
\<close>

theorem merge_returns_overlong_line:
  "maxLineLength c = (if usesTimeTracking c then 66 else 70)
   \<and> mergeStatementElements textEnv conv0
       [plainLine [] [''a=1''], eolLine longStmt, plainLine [] [''b=2'']] =
       ([plainLine [] [''a=1''], eolLine longStmt, plainLine [] [''b=2'']], None)
   \<and> mergeStatementElements textEnv conv0 [plainLine [] [longStmt]] =
       ([plainLine [] [longStmt]], None)
   \<and> getLengthOfLine textEnv conv0 (Statements (eolLine longStmt)) = 71
   \<and> getLengthOfLine textEnv conv0 (Statements (plainLine [] [longStmt])) = 71
   \<and> maxLineLength conv0 = 70"
proof -
  have "maxLineLength c = (if usesTimeTracking c then 66 else 70)"
    by (simp add: maxLineLength_def)
  moreover have "mergeStatementElements textEnv conv0
       [plainLine [] [''a=1''], eolLine longStmt, plainLine [] [''b=2'']] =
       ([plainLine [] [''a=1''], eolLine longStmt, plainLine [] [''b=2'']], None)"
    by (simp add: mergeStatementElements_def plainLine_def eolLine_def newCurrent_def Let_def)
  moreover have "mergeStatementElements textEnv conv0 [plainLine [] [longStmt]] =
       ([plainLine [] [longStmt]], None)"
    by (simp add: mergeStatementElements_def plainLine_def newCurrent_def Let_def)
  moreover have "getLengthOfLine textEnv conv0 (Statements (eolLine longStmt)) = 71"
    by (simp add: eolLine_def)
  moreover have "getLengthOfLine textEnv conv0 (Statements (plainLine [] [longStmt])) = 71"
    by (simp add: plainLine_def)
  ultimately show ?thesis by simp
qed

text \<open>
  Claim C4, at inputs where the code and the claim part. A line of 71 characters is
  reported when another line follows it and it has no must-end marker; it is not
  reported when it is the last line, nor when it carries the must-end marker.
\<close>

theorem merge_misses_overlong_lines:
  "mergeStatementElements textEnv conv0 [plainLine [] [longStmt], plainLine [] [''a=1'']] =
     ([plainLine [] [longStmt]], Some (tooLongError textEnv (plainLine [] [longStmt])))
   \<and> mergeStatementElements textEnv conv0 [plainLine [] [''a=1''], plainLine [] [longStmt]] =
     ([plainLine [] [''a=1''], plainLine [] [longStmt]], None)
   \<and> mergeStatementElements textEnv conv0 [eolLine longStmt, plainLine [] [''a=1'']] =
     ([eolLine longStmt, plainLine [] [''a=1'']], None)
   \<and> getLengthOfLine textEnv conv0 (Statements (eolLine longStmt)) = 71
   \<and> maxLineLength conv0 = 70"
  by (simp add: mergeStatementElements_def plainLine_def eolLine_def newCurrent_def Let_def)

section \<open>Properties of the traversal engine\<close>

lemma patchExtLines_splice:
  "patchExtLines (before @ line # after) (int (length before)) repl =
     (case appendExtLines before repl of
        Panics \<Rightarrow> Panics
      | Returns before' \<Rightarrow> Returns (before' @ after))"
  by (simp add: patchExtLines_def split: GoResult.splits)

lemma acceptLines_refines:
  "acceptLines (v :: ('st, 'l, 'o, 'e) Visitor) st (before @ after) (int (length before)) =
     visitSiblings v st before after"
proof (induction after arbitrary: st before)
  case Nil
  show ?case by (subst acceptLines.simps) simp
next
  case (Cons line after)
  have step_none: "\<And>st2. acceptLines v st2 (before @ line # after) (int (length before) + 1)
      = visitSiblings v st2 (before @ [line]) after"
    using Cons.IH [of _ "before @ [line]"] by (simp add: add.commute)
  have step_repl: "\<And>st2 (repl :: ('l, 'o) Node list) before'.
      appendExtLines before repl = Returns before' \<Longrightarrow>
      acceptLines v st2 (before' @ after) (int (length before) + int (length repl))
      = visitSiblings v st2 before' after"
  proof -
    fix st2 and repl :: "('l, 'o) Node list" and before'
    assume "appendExtLines before repl = Returns before'"
    from appendExtLines_length [OF this]
    have "int (length before) + int (length repl) = int (length before')" by simp
    with Cons.IH [of st2 before']
    show "acceptLines v st2 (before' @ after) (int (length before) + int (length repl))
      = visitSiblings v st2 before' after" by simp
  qed
  show ?case
    by (subst acceptLines.simps)
       (simp add: patchExtLines_splice step_none step_repl
        split: prod.splits option.splits VisitError.splits GoResult.splits)
qed

lemma appendExtLines_lines:
  "appendExtLines newv (map ExtLineNode new) = Returns (newv @ new)"
  by (induction new arbitrary: newv) simp_all

lemma appendExtLines_mismatch:
  "OtherNode x \<in> set repl \<Longrightarrow> appendExtLines newv repl = Panics"
proof (induction newv repl rule: appendExtLines.induct)
  case (1 newv)
  then show ?case by simp
next
  case (2 newv line repl)
  then show ?case by simp
next
  case (3 newv other repl)
  then show ?case by simp
qed

lemma Visit_recorder: "Visit (recorder f) log lines vt = (log, None)"
  by (simp add: recorder_def)

lemma visitSiblings_recorder:
  "visitSiblings (recorder f) log before after =
     Returns (log @ after, before @ concat (map (replaced f) after), None)"
proof (induction after arbitrary: log before)
  case Nil
  show ?case by simp
next
  case (Cons line after)
  show ?case
  proof (cases "f line")
    case None
    with Cons [of "log @ [line]" "before @ [line]"] show ?thesis
      by (simp add: recorder_def replaced_def)
  next
    case (Some new)
    with Cons [of "log @ [line]" "before @ new"] show ?thesis
      by (simp add: recorder_def replaced_def appendExtLines_lines)
  qed
qed

lemma acceptLines_recorder:
  "acceptLines (recorder f) [] lines 0 = Returns (lines, concat (map (replaced f) lines), None)"
  using acceptLines_refines [of "recorder f" "[]" "[]" lines]
  by (simp add: visitSiblings_recorder)

lemma ExtProgramm_Accept_recorder:
  "ExtProgramm_Accept (recorder f) [] lines =
     Returns (lines, concat (map (replaced f) lines), None)"
  by (simp add: ExtProgramm_Accept_def Visit_recorder acceptLines_recorder)

text \<open>
  Claim C7. Patching puts the replacement where the replaced line stood, so the number
  of lines changes by the length of the replacement less one. The loop with its index
  arithmetic does what the traversal child by child does: it goes on with the line
  that followed the replaced one. So a visitor that logs what it is asked to accept
  sees every line of the original program once, in order, and no replacement line,
  and the program ends as the original lines with each replaced line expanded.
\<close>

theorem replacement_keeps_iteration:
  "patchExtLines (before @ line # after) (int (length before)) (map ExtLineNode new) =
     Returns (before @ new @ after)
   \<and> acceptLines v st (before @ after) (int (length before)) = visitSiblings v st before after
   \<and> ExtProgramm_Accept (recorder f) [] lines =
       Returns (lines, concat (map (replaced f) lines), None)"
  by (simp add: patchExtLines_splice appendExtLines_lines acceptLines_refines
      ExtProgramm_Accept_recorder)

text \<open>
  Claim C8. A replacement that holds a node that is not a line makes
  \<^verbatim>\<open>patchExtLines\<close> panic, whatever the lines and the position are; the loop of
  \<^verbatim>\<open>ExtProgramm.Accept\<close> that receives it panics, and so does
  \<^verbatim>\<open>ExtProgramm.Accept\<close>: no error value is returned.
\<close>

theorem mismatched_replacement_panics:
  assumes "OtherNode x \<in> set repl"
  shows "patchExtLines old position repl = Panics
       \<and> (Visit v st (before @ line # after) (ChildIndex (int (length before))) = (st1, None) \<and>
          AcceptLine v st1 line = (st2, Some (NodeReplacement repl)) \<longrightarrow>
            acceptLines v st (before @ line # after) (int (length before)) = Panics)
       \<and> (Visit v st (line # after) PreVisit = (st0, None) \<and>
          Visit v st0 (line # after) (ChildIndex 0) = (st1, None) \<and>
          AcceptLine v st1 line = (st2, Some (NodeReplacement repl)) \<longrightarrow>
            ExtProgramm_Accept v st (line # after) = Panics)"
proof -
  have p: "patchExtLines old position repl = Panics" for old :: "'a list" and position
    using assms by (simp add: patchExtLines_def appendExtLines_mismatch)
  have a: "acceptLines v st (before @ line # after) (int (length before)) = Panics"
    if "Visit v st (before @ line # after) (ChildIndex (int (length before))) = (st1, None)"
      and "AcceptLine v st1 line = (st2, Some (NodeReplacement repl))"
    for st before st1
    using that p by (subst acceptLines.simps) simp
  have "ExtProgramm_Accept v st (line # after) = Panics"
    if "Visit v st (line # after) PreVisit = (st0, None)"
      and "Visit v st0 (line # after) (ChildIndex 0) = (st1, None)"
      and "AcceptLine v st1 line = (st2, Some (NodeReplacement repl))"
    using that a [of st0 "[]" st1] by (simp add: ExtProgramm_Accept_def)
  with p a show ?thesis by blast
qed

theorem mismatched_replacement_panics_witness:
  "patchExtLines [''a=1'', ''b=2''] 0 [ExtLineNode ''c=3'', OtherNode ()] = Panics
   \<and> acceptLines badVisitor () [''a=1'', ''b=2''] 0 = Panics
   \<and> ExtProgramm_Accept badVisitor () [''a=1'', ''b=2''] = Panics"
proof -
  have m: "OtherNode () \<in> set [ExtLineNode ''c=3'', OtherNode ()]" by simp
  have m': "OtherNode () \<in> set [OtherNode () :: (string, unit) Node]" by simp
  have w1: "patchExtLines [''a=1'', ''b=2''] 0 [ExtLineNode ''c=3'', OtherNode ()] = Panics"
    using mismatched_replacement_panics [OF m, THEN conjunct1] .
  have w2: "acceptLines badVisitor () [''a=1'', ''b=2''] 0 = Panics"
    using mismatched_replacement_panics [OF m', where v = badVisitor and st = "()"
        and before = "[]" and line = "''a=1''" and after = "[''b=2'']" and ?st1.0 = "()"
        and ?st2.0 = "()", THEN conjunct2, THEN conjunct1]
    by (simp add: badVisitor_def)
  have w3: "ExtProgramm_Accept badVisitor () [''a=1'', ''b=2''] = Panics"
    using mismatched_replacement_panics [OF m', where v = badVisitor and st = "()"
        and line = "''a=1''" and after = "[''b=2'']" and ?st0.0 = "()" and ?st1.0 = "()"
        and ?st2.0 = "()", THEN conjunct2, THEN conjunct2]
    by (simp add: badVisitor_def)
  from w1 w2 w3 show ?thesis by (intro conjI)
qed

section \<open>Properties of the loop stack\<close>

lemma goesOn_simps [simp]:
  "goesOn NoError" "goesOn (Replaced repl)" "\<not> goesOn (Failed e)" "\<not> goesOn Panicked"
  by (simp_all add: goesOn_def)

lemma pushedIds_simps [simp]:
  "pushedIds [] = []"
  "pushedIds (xs @ ys) = pushedIds xs @ pushedIds ys"
  "pushedIds (ob # obs) =
     (if isWhileLoop (obsNode ob) \<and> obsVisit ob = PreVisit then [last (obsAfter ob)] else []) @
     pushedIds obs"
  by (simp_all add: pushedIds_def)

lemma isWhileLoop_simps [simp]:
  "isWhileLoop (WhileLoop children)" "\<not> isWhileLoop BreakStatement"
  "\<not> isWhileLoop ContinueStatement" "\<not> isWhileLoop (OtherKind a children)"
  by (simp_all add: isWhileLoop_def)










section \<open>Properties of the length estimator\<close>










end
